theory Spec2Isabelle
  imports Main "HOL-Library.AList"
begin

section \<open>Python values\<close>

text \<open>
  The pipeline passes around what \<^verbatim>\<open>json.loads\<close> returns and what the agents build by hand:
  \<^verbatim>\<open>None\<close>, booleans, numbers, strings, lists and dictionaries with string keys.
  A dictionary is an association list in insertion order with distinct keys.
  JSON numbers are kept as integers: the code only tests a number for truth, and every
  float is, for that test, either zero or not.
\<close>

datatype json =
    JNull
  | JBool bool
  | JInt int
  | JStr string
  | JArr "json list"
  | JObj "(string \<times> json) list"

type_synonym dict = "(string \<times> json) list"

text \<open>
  An exception is represented by its message, \<^verbatim>\<open>str(e)\<close>. The messages of the
  interpreter's own exceptions are abridged: the name of the class, then what failed,
  without the quotation marks Python puts around names.
\<close>

type_synonym exn = string

text \<open>Python truth value of an object, as \<^verbatim>\<open>if x:\<close> and \<^verbatim>\<open>not x\<close> test it.\<close>

fun truthy :: "json \<Rightarrow> bool" where
  "truthy JNull = False"
| "truthy (JBool b) = b"
| "truthy (JInt n) = (n \<noteq> 0)"
| "truthy (JStr s) = (s \<noteq> [])"
| "truthy (JArr xs) = (xs \<noteq> [])"
| "truthy (JObj kvs) = (kvs \<noteq> [])"

text \<open>\<^verbatim>\<open>d.get(k, default)\<close>\<close>

definition dict_get :: "dict \<Rightarrow> string \<Rightarrow> json \<Rightarrow> json" where
  "dict_get d k dflt = (case map_of d k of None \<Rightarrow> dflt | Some v \<Rightarrow> v)"

text \<open>\<^verbatim>\<open>d[k]\<close>, which raises KeyError on a missing key.\<close>

definition dict_index :: "dict \<Rightarrow> string \<Rightarrow> exn + json" where
  "dict_index d k = (case map_of d k of None \<Rightarrow> Inl (''KeyError: '' @ k) | Some v \<Rightarrow> Inr v)"

text \<open>\<^verbatim>\<open>d.setdefault(k, v)\<close>: the key is added at the end only when it is missing.\<close>

definition dict_setdefault :: "string \<Rightarrow> json \<Rightarrow> dict \<Rightarrow> dict" where
  "dict_setdefault k v d = (case map_of d k of None \<Rightarrow> AList.update k v d | Some _ \<Rightarrow> d)"

text \<open>
  The dictionary display \<^verbatim>\<open>{**d1, **d2}\<close>: the entries of \<open>d2\<close> are stored into \<open>d1\<close>
  one after the other, so a key of \<open>d2\<close> that \<open>d1\<close> already has keeps its place and
  takes the value of \<open>d2\<close>.
\<close>

definition dict_merge :: "dict \<Rightarrow> dict \<Rightarrow> dict" where
  "dict_merge d1 d2 = fold (\<lambda>kv d. AList.update (fst kv) (snd kv) d) d2 d1"

text \<open>
  \<^verbatim>\<open>x[:100]\<close> is defined on strings and lists; on any other value of this type it raises.
\<close>

fun sliceable :: "json \<Rightarrow> bool" where
  "sliceable (JStr s) = True"
| "sliceable (JArr xs) = True"
| "sliceable j = False"

section \<open>Strings\<close>

text \<open>
  A character stands for a code point below 256. These are the ones \<^verbatim>\<open>str.strip()\<close>
  removes: the ASCII blanks and separators, U+0085 and U+00A0.
\<close>

definition is_space :: "char \<Rightarrow> bool" where
  "is_space c = (c \<in> set [CHR '' '', CHR 0x09, CHR 0x0A, CHR 0x0B, CHR 0x0C, CHR 0x0D,
                            CHR 0x1C, CHR 0x1D, CHR 0x1E, CHR 0x1F, CHR 0x85, CHR 0xA0])"

definition strip :: "string \<Rightarrow> string" where
  "strip s = rev (dropWhile is_space (rev (dropWhile is_space s)))"

definition startswith :: "string \<Rightarrow> string \<Rightarrow> bool" where
  "startswith s p = (take (length p) s = p)"

text \<open>
  \<^verbatim>\<open>content.split("```")\<close>: the pieces between the non-overlapping occurrences of three
  backquotes, found from the left. \<open>cur\<close> is the piece being read, reversed.
\<close>

fun split_fence :: "string \<Rightarrow> string \<Rightarrow> string list" where
  "split_fence cur (a # b # c # rest) =
     (if a = CHR 0x60 \<and> b = CHR 0x60 \<and> c = CHR 0x60
      then rev cur # split_fence [] rest
      else split_fence (a # cur) (b # c # rest))"
| "split_fence cur [a, b] = [rev cur @ [a, b]]"
| "split_fence cur [a] = [rev cur @ [a]]"
| "split_fence cur [] = [rev cur]"

text \<open>
  Both agents clean the model's text the same way before parsing it
  (\<^verbatim>\<open>validator_agent.py\<close> 143-147, \<^verbatim>\<open>report_agent.py\<close> 214-218):
  \<^verbatim>\<open>
  if content.startswith("```"):
      content = content.split("```")[1]
      if content.startswith("json"):
          content = content[4:]
      content = content.strip()
  \<close>
\<close>

definition remove_markdown_code_block :: "string \<Rightarrow> exn + string" where
  "remove_markdown_code_block content =
     (if startswith content [CHR 0x60, CHR 0x60, CHR 0x60] then
        (case split_fence [] content of
           p0 # p1 # ps \<Rightarrow>
             Inr (strip (if startswith p1 ''json'' then drop 4 p1 else p1))
         | _ \<Rightarrow> Inl ''IndexError: list index out of range'')
      else Inr content)"

section \<open>The language model and the JSON parser\<close>

text \<open>
  A call of \<^verbatim>\<open>client.messages.create\<close> followed by \<^verbatim>\<open>response.content[0].text\<close> either
  raises (network error, time-out, a response without a text block) or yields a text.
  Which one happens is an input of the model. \<^verbatim>\<open>json.loads\<close> is a parameter too, named
  \<open>loads\<close>: \<open>None\<close> stands for \<^verbatim>\<open>json.JSONDecodeError\<close>.
\<close>

datatype llm_reply = Raises exn | Reply string

section \<open>Quality Validator (\<^verbatim>\<open>validator_agent.py\<close>)\<close>

text \<open>The verdict returned when the judge's text is not JSON (lines 159-167).\<close>

definition unparsed_validation :: dict where
  "unparsed_validation =
     [(''is_approved'', JBool True),
      (''quality_score'', JInt 80),
      (''feedback'', JStr ''Report meets quality standards''),
      (''issues'', JArr [])]"

text \<open>The result returned by the handler of \<^verbatim>\<open>execute\<close> (lines 72-80).\<close>

definition skipped_validation :: dict where
  "skipped_validation =
     [(''success'', JBool True),
      (''is_approved'', JBool True),
      (''feedback'', JStr ''Validation skipped due to error''),
      (''quality_score'', JInt 0)]"

text \<open>
  \<^verbatim>\<open>_validate_report\<close>, lines 133-167. Only \<^verbatim>\<open>json.JSONDecodeError\<close> is caught here; a parsed
  value that is not a dictionary has no \<^verbatim>\<open>setdefault\<close> and raises AttributeError.
\<close>

definition ValidatorAgent_validate_report :: "(string \<Rightarrow> json option) \<Rightarrow> llm_reply \<Rightarrow> exn + dict" where
  "ValidatorAgent_validate_report loads reply =
     (case reply of
        Raises e \<Rightarrow> Inl e
      | Reply text \<Rightarrow>
          (case remove_markdown_code_block (strip text) of
             Inl e \<Rightarrow> Inl e
           | Inr content \<Rightarrow>
               (case loads content of
                  None \<Rightarrow> Inr unparsed_validation
                | Some (JObj validation) \<Rightarrow>
                    Inr (dict_setdefault ''issues'' (JArr [])
                          (dict_setdefault ''feedback'' (JStr ''Validation incomplete'')
                            (dict_setdefault ''quality_score'' (JInt 0)
                              (dict_setdefault ''is_approved'' (JBool False) validation))))
                | Some other \<Rightarrow> Inl ''AttributeError: object has no attribute setdefault'')))"

text \<open>
  The body of the \<^verbatim>\<open>try\<close> of \<^verbatim>\<open>execute\<close>, lines 55-70. On a rejection the feedback is
  printed through \<^verbatim>\<open>validation_result['feedback'][:100]\<close>, which raises when the feedback
  cannot be sliced.
\<close>

definition ValidatorAgent_execute_try :: "(string \<Rightarrow> json option) \<Rightarrow> llm_reply \<Rightarrow> exn + dict" where
  "ValidatorAgent_execute_try loads reply =
     (case ValidatorAgent_validate_report loads reply of
        Inl e \<Rightarrow> Inl e
      | Inr validation_result \<Rightarrow>
          (case dict_index validation_result ''is_approved'' of
             Inl e \<Rightarrow> Inl e
           | Inr approved \<Rightarrow>
               if truthy approved
               then Inr (dict_merge [(''success'', JBool True)] validation_result)
               else
                 (case dict_index validation_result ''feedback'' of
                    Inl e \<Rightarrow> Inl e
                  | Inr feedback \<Rightarrow>
                      if sliceable feedback
                      then Inr (dict_merge [(''success'', JBool True)] validation_result)
                      else Inl ''TypeError: object is not subscriptable'')))"

text \<open>
  \<^verbatim>\<open>ValidatorAgent.execute\<close>, lines 52-80: \<^verbatim>\<open>except Exception\<close> turns every exception of
  the body into the fixed approving result. The result type keeps the possibility of an
  exception leaving the method, so that its absence is a theorem.
\<close>

definition ValidatorAgent_execute :: "(string \<Rightarrow> json option) \<Rightarrow> llm_reply \<Rightarrow> exn + dict" where
  "ValidatorAgent_execute loads reply =
     (case ValidatorAgent_execute_try loads reply of
        Inr result \<Rightarrow> Inr result
      | Inl e \<Rightarrow> Inr skipped_validation)"

section \<open>Draft Generator (\<^verbatim>\<open>report_agent.py\<close>)\<close>

text \<open>The report returned when the model's text is not JSON (lines 227-237).\<close>

definition minimal_report :: json where
  "minimal_report =
     JObj [(''summary'',
             JObj [(''total_changes'', JInt 0),
                   (''overall_risk'', JStr ''medium''),
                   (''key_takeaways'', JArr [JStr ''Report generation in progress''])]),
           (''legal_changes'', JArr []),
           (''route_impacts'', JArr []),
           (''recommended_actions'', JArr [])]"

text \<open>
  \<^verbatim>\<open>_generate_report\<close>, lines 203-237. A text that parses is returned as parsed, whatever
  its shape; only \<^verbatim>\<open>json.JSONDecodeError\<close> leads to the minimal report.
\<close>

definition ReportGeneratorAgent_generate_report :: "(string \<Rightarrow> json option) \<Rightarrow> llm_reply \<Rightarrow> exn + json" where
  "ReportGeneratorAgent_generate_report loads reply =
     (case reply of
        Raises e \<Rightarrow> Inl e
      | Reply text \<Rightarrow>
          (case remove_markdown_code_block (strip text) of
             Inl e \<Rightarrow> Inl e
           | Inr content \<Rightarrow>
               (case loads content of
                  None \<Rightarrow> Inr minimal_report
                | Some report \<Rightarrow> Inr report)))"

text \<open>
  \<^verbatim>\<open>ReportGeneratorAgent.execute\<close>, lines 37-59: an exception of \<^verbatim>\<open>_generate_report\<close> is
  reported in the result, with no report.
\<close>

definition ReportGeneratorAgent_execute :: "(string \<Rightarrow> json option) \<Rightarrow> llm_reply \<Rightarrow> exn + dict" where
  "ReportGeneratorAgent_execute loads reply =
     (case ReportGeneratorAgent_generate_report loads reply of
        Inr report_content \<Rightarrow>
          Inr [(''success'', JBool True), (''report'', report_content)]
      | Inl e \<Rightarrow>
          Inr [(''success'', JBool False), (''error'', JStr e), (''report'', JNull)])"

section \<open>Pipeline Controller (\<^verbatim>\<open>report_service.py\<close>)\<close>

text \<open>
  Everything \<^verbatim>\<open>generate_report\<close> obtains from outside is a field of the environment:
  the configuration, which search agent line 63 chooses, the outcome of the constructors
  that accept the key, what the search agent's \<^verbatim>\<open>execute\<close> returns, the language
  model's reply to the generator and to the validator at each iteration, the clock, the
  builtin \<^verbatim>\<open>str\<close>, and whether each write to the file system or to the vector store
  raises (\<open>None\<close>: it does not).
\<close>

record env =
  report_id :: string
  company_profile :: dict
  max_iterations :: int
  json_loads :: "string \<Rightarrow> json option"
  py_str :: "json \<Rightarrow> string"
  use_mcp :: bool
  mcp_search_agent_created :: "exn option"
  validator_agent_created :: "exn option"
  search_executed :: "exn + dict"
  search_results_added :: "exn option"
  generator_reply :: "int \<Rightarrow> llm_reply"
  validator_reply :: "int \<Rightarrow> llm_reply"
  validated_at :: "int \<Rightarrow> string"
  generated_at :: string
  failed_at :: string
  report_saved :: "exn option"
  report_added :: "exn option"
  pdf_path :: string
  pdf_generated :: "exn option"
  failed_report_saved :: "exn option"

text \<open>
  The calls made to the two agents are logged, with the iteration number and what the
  call is given: the previous feedback for the generator, the draft for the validator.
  The log is not in the source; it is there to count rounds.
\<close>

datatype call = Generate int json | Validate int json

record loop_state =
  iteration_count :: int
  validation_history :: "json list"
  report_content :: json
  previous_feedback :: json
  calls :: "call list"

text \<open>\<^verbatim>\<open>len(x)\<close>\<close>

fun py_len :: "json \<Rightarrow> exn + int" where
  "py_len (JStr s) = Inr (int (length s))"
| "py_len (JArr xs) = Inr (int (length xs))"
| "py_len (JObj kvs) = Inr (int (length kvs))"
| "py_len j = Inl ''TypeError: object has no len()''"

text \<open>
  Lines 63-71 build the agents and pass the caller's key by keyword:
  \<^verbatim>\<open>
  if settings.USE_MCP_AGENTS and MCP_AGENT_AVAILABLE and is_mcp_configured():
      search_agent = MCPSearchAgent(api_key=api_key)
  else:
      search_agent = SearchAgent(api_key=api_key)
  report_agent = ReportGeneratorAgent(api_key=api_key)
  validator_agent = ValidatorAgent(api_key=api_key)
  \<close>
  \<^verbatim>\<open>MCPSearchAgent.__init__\<close> and \<^verbatim>\<open>ValidatorAgent.__init__\<close> take \<^verbatim>\<open>api_key\<close>; what
  they do with it is an input. \<^verbatim>\<open>SearchAgent.__init__(self)\<close> and
  \<^verbatim>\<open>ReportGeneratorAgent.__init__(self)\<close> declare no such parameter, so calling them
  with the keyword raises TypeError before their body runs.
\<close>

definition SearchAgent_init_api_key :: "exn + unit" where
  "SearchAgent_init_api_key =
     Inl ''TypeError: SearchAgent.__init__() got an unexpected keyword argument api_key''"

definition ReportGeneratorAgent_init_api_key :: "exn + unit" where
  "ReportGeneratorAgent_init_api_key =
     Inl ''TypeError: ReportGeneratorAgent.__init__() got an unexpected keyword argument api_key''"

definition create_agents :: "env \<Rightarrow> exn + unit" where
  "create_agents env =
     (case (if use_mcp env
            then (case mcp_search_agent_created env of Some e \<Rightarrow> Inl e | None \<Rightarrow> Inr ())
            else SearchAgent_init_api_key) of
        Inl e \<Rightarrow> Inl e
      | Inr search_agent \<Rightarrow>
          (case ReportGeneratorAgent_init_api_key of
             Inl e \<Rightarrow> Inl e
           | Inr report_agent \<Rightarrow>
               (case validator_agent_created env of
                  Some e \<Rightarrow> Inl e
                | None \<Rightarrow> Inr ())))"

text \<open>
  Lines 61-90: the agents are built, the search agent runs, a search that reports no
  success is turned into an exception, and the results are stored for retrieval.
\<close>

definition gather :: "env \<Rightarrow> exn + dict \<times> json" where
  "gather env =
     (case create_agents env of
        Inl e \<Rightarrow> Inl e
      | Inr agents \<Rightarrow>
          (case search_executed env of
             Inl e \<Rightarrow> Inl e
           | Inr search_result \<Rightarrow>
               (case dict_index search_result ''success'' of
                  Inl e \<Rightarrow> Inl e
                | Inr ok \<Rightarrow>
                    if \<not> truthy ok
                    then Inl (''Search failed: '' @ py_str env (dict_get search_result ''error'' JNull))
                    else
                      (case dict_index search_result ''search_results'' of
                         Inl e \<Rightarrow> Inl e
                       | Inr search_results \<Rightarrow>
                           (case search_results_added env of
                              Some e \<Rightarrow> Inl e
                            | None \<Rightarrow> Inr (search_result, search_results))))))"

text \<open>How one pass through the body of the \<^verbatim>\<open>while\<close> ends.\<close>

datatype control = Raised exn | Break | Continue

text \<open>Lines 117-124.\<close>

definition validation_entry :: "env \<Rightarrow> int \<Rightarrow> dict \<Rightarrow> json" where
  "validation_entry env n validation_result =
     JObj [(''iteration'', JInt n),
           (''is_approved'', dict_get validation_result ''is_approved'' (JBool False)),
           (''quality_score'', dict_get validation_result ''quality_score'' (JInt 0)),
           (''feedback'', dict_get validation_result ''feedback'' (JStr [])),
           (''issues'', dict_get validation_result ''issues'' (JArr [])),
           (''validated_at'', JStr (validated_at env n))]"

text \<open>
  The body of the loop, lines 93-139, entered with \<open>iteration_count < max_iterations\<close>.
\<close>

definition iteration :: "env \<Rightarrow> loop_state \<Rightarrow> control \<times> loop_state" where
  "iteration env s =
     (let n = iteration_count s + 1;
          s1 = s\<lparr>iteration_count := n,
                  calls := calls s @ [Generate n (previous_feedback s)]\<rparr>
      in case ReportGeneratorAgent_execute (json_loads env) (generator_reply env n) of
           Inl e \<Rightarrow> (Raised e, s1)
         | Inr report_result \<Rightarrow>
             (case dict_index report_result ''success'' of
                Inl e \<Rightarrow> (Raised e, s1)
              | Inr ok \<Rightarrow>
                  if \<not> truthy ok
                  then (Raised (''Report generation failed: ''
                                  @ py_str env (dict_get report_result ''error'' JNull)), s1)
                  else
                    (case dict_index report_result ''report'' of
                       Inl e \<Rightarrow> (Raised e, s1)
                     | Inr content \<Rightarrow>
                         (let s2 = s1\<lparr>report_content := content,
                                        calls := calls s1 @ [Validate n content]\<rparr>
                          in case ValidatorAgent_execute (json_loads env) (validator_reply env n) of
                               Inl e \<Rightarrow> (Raised e, s2)
                             | Inr validation_result \<Rightarrow>
                                 (let s3 = s2\<lparr>validation_history :=
                                                 validation_history s2
                                                   @ [validation_entry env n validation_result]\<rparr>
                                  in if truthy (dict_get validation_result ''is_approved'' (JBool False))
                                     then (Break, s3)
                                     else
                                       (let s4 = s3\<lparr>previous_feedback :=
                                                       dict_get validation_result ''feedback'' (JStr [])\<rparr>
                                        in if iteration_count s4 \<ge> max_iterations env
                                           then (Break, s4)
                                           else (Continue, s4)))))))"

text \<open>
  The \<^verbatim>\<open>while iteration_count < max_iterations\<close> loop, lines 92-139. The result is the
  exception that left the loop, if any, and the variables as they are then.
\<close>

function validation_loop :: "env \<Rightarrow> loop_state \<Rightarrow> exn option \<times> loop_state" where
  "validation_loop env s =
     (if iteration_count s < max_iterations env then
        (case iteration env s of
           (Raised e, s') \<Rightarrow> (Some e, s')
         | (Break, s') \<Rightarrow> (None, s')
         | (Continue, s') \<Rightarrow> validation_loop env s')
      else (None, s))"
  by pat_completeness auto
termination
proof (relation "measure (\<lambda>(env, s). nat (max_iterations env - iteration_count s))")
  show "wf (measure (\<lambda>(env, s). nat (max_iterations env - iteration_count s)))"
    by simp
next
  fix env :: env and s s' :: loop_state and c :: control
  assume "iteration_count s < max_iterations env" and "(c, s') = iteration env s"
  then have "iteration_count s' = iteration_count s + 1"
    by (auto simp: iteration_def Let_def split: sum.splits if_splits)
  with \<open>iteration_count s < max_iterations env\<close>
  show "((env, s'), env, s) \<in> measure (\<lambda>(env, s). nat (max_iterations env - iteration_count s))"
    by simp
qed

declare validation_loop.simps [simp del]

text \<open>Lines 56-58 and 88-89: the variables before the loop.\<close>

definition initial_state :: loop_state where
  "initial_state =
     \<lparr>iteration_count = 0, validation_history = [], report_content = JNull,
      previous_feedback = JNull, calls = []\<rparr>"

text \<open>
  Lines 142-154. The status is the constant \<^verbatim>\<open>"approved"\<close> however the loop ended.
\<close>

definition final_report :: "env \<Rightarrow> dict \<Rightarrow> json \<Rightarrow> loop_state \<Rightarrow> exn + dict" where
  "final_report env search_result search_results s =
     (case py_len search_results of
        Inl e \<Rightarrow> Inl e
      | Inr total_sources \<Rightarrow>
          Inr [(''id'', JStr (report_id env)),
               (''company_name'', dict_get (company_profile env) ''company_name'' (JStr ''Unknown'')),
               (''status'', JStr ''approved''),
               (''content'', report_content s),
               (''generated_at'', JStr (generated_at env)),
               (''validation_history'', JArr (validation_history s)),
               (''iteration_count'', JInt (iteration_count s)),
               (''search_metadata'',
                  JObj [(''total_sources'', JInt total_sources),
                        (''queries_used'', dict_get search_result ''queries_used'' (JArr []))])])"

text \<open>
  Line 173, \<^verbatim>\<open>report_content.get("summary", {}).get("overall_risk", "medium")\<close>: both
  receivers must be dictionaries.
\<close>

definition overall_risk :: "json \<Rightarrow> exn + json" where
  "overall_risk content =
     (case content of
        JObj d \<Rightarrow>
          (case dict_get d ''summary'' (JObj []) of
             JObj summary \<Rightarrow> Inr (dict_get summary ''overall_risk'' (JStr ''medium''))
           | other \<Rightarrow> Inl ''AttributeError: object has no attribute get'')
      | other \<Rightarrow> Inl ''AttributeError: object has no attribute get'')"

text \<open>
  What a run leaves behind: what \<^verbatim>\<open>generate_report\<close> returns or raises, the record last
  written in full to \<^verbatim>\<open>{report_id}.json\<close> (a write that raises is taken to leave the file as
  it was), and the log of agent calls.
\<close>

record outcome =
  returned :: "exn + dict"
  persisted :: "dict option"
  trace :: "call list"

text \<open>
  Lines 156-240, after the final report is built: the report is written, then indexed,
  both inside the outer \<^verbatim>\<open>try\<close>; the PDF is generated inside a \<^verbatim>\<open>try\<close> of its own, which
  only records whether there is one. The result is the exception raised, or the report
  returned, and the record on disk.
\<close>

definition commit :: "env \<Rightarrow> dict \<Rightarrow> json \<Rightarrow> (exn + dict) \<times> dict option" where
  "commit env report content =
     (case report_saved env of
        Some e \<Rightarrow> (Inl e, None)
      | None \<Rightarrow>
          (case overall_risk content of
             Inl e \<Rightarrow> (Inl e, Some report)
           | Inr risk \<Rightarrow>
               (case report_added env of
                  Some e \<Rightarrow> (Inl e, Some report)
                | None \<Rightarrow>
                    (case pdf_generated env of
                       None \<Rightarrow>
                         (Inr (AList.update ''has_pdf'' (JBool True)
                                 (AList.update ''pdf_path'' (JStr (pdf_path env)) report)),
                          Some report)
                     | Some pdf_error \<Rightarrow>
                         (Inr (AList.update ''has_pdf'' (JBool False)
                                 (AList.update ''pdf_path'' JNull report)),
                          Some report)))))"

text \<open>
  Lines 156-240 once the final report is built: the outcome of the commit steps as the
  outer \<^verbatim>\<open>try\<close> sees it. An exception comes with the variables the handler reads.
\<close>

definition finish :: "env \<Rightarrow> dict \<Rightarrow> loop_state
    \<Rightarrow> (exn \<times> loop_state + dict) \<times> dict option \<times> call list" where
  "finish env report s =
     (case commit env report (report_content s) of
        (Inl e, saved) \<Rightarrow> (Inl (e, s), saved, calls s)
      | (Inr result, saved) \<Rightarrow> (Inr result, saved, calls s))"

text \<open>The body of the outer \<^verbatim>\<open>try\<close>, lines 61-240.\<close>

definition generate_report_try :: "env \<Rightarrow> (exn \<times> loop_state + dict) \<times> dict option \<times> call list" where
  "generate_report_try env =
     (case gather env of
        Inl e \<Rightarrow> (Inl (e, initial_state), None, [])
      | Inr (search_result, search_results) \<Rightarrow>
          (case validation_loop env initial_state of
             (Some e, s) \<Rightarrow> (Inl (e, s), None, calls s)
           | (None, s) \<Rightarrow>
               (case final_report env search_result search_results s of
                  Inl e \<Rightarrow> (Inl (e, s), None, calls s)
                | Inr report \<Rightarrow> finish env report s)))"

text \<open>Lines 249-257.\<close>

definition failed_report :: "env \<Rightarrow> exn \<Rightarrow> loop_state \<Rightarrow> dict" where
  "failed_report env e s =
     [(''id'', JStr (report_id env)),
      (''company_name'', dict_get (company_profile env) ''company_name'' (JStr ''Unknown'')),
      (''status'', JStr ''failed''),
      (''error'', JStr e),
      (''generated_at'', JStr (failed_at env)),
      (''iteration_count'', JInt (iteration_count s)),
      (''validation_history'', JArr (validation_history s))]"

text \<open>
  How \<^verbatim>\<open>generate_report\<close> ends: the return of lines 237-240 when the body of the
  \<^verbatim>\<open>try\<close> produced the report, the handler of lines 242-267 when it raised. The
  handler writes the failed report outside any \<^verbatim>\<open>try\<close>: when that write raises, the
  exception leaves the method.
\<close>

definition conclude ::
    "env \<Rightarrow> (exn \<times> loop_state + dict) \<times> dict option \<times> call list \<Rightarrow> outcome" where
  "conclude env tried =
     (case tried of
        (Inr report, saved, log) \<Rightarrow>
          \<lparr>returned = Inr [(''success'', JBool True), (''report'', JObj report)],
           persisted = saved, trace = log\<rparr>
      | (Inl (e, s), saved, log) \<Rightarrow>
          (case failed_report_saved env of
             Some e' \<Rightarrow> \<lparr>returned = Inl e', persisted = saved, trace = log\<rparr>
           | None \<Rightarrow>
               \<lparr>returned = Inr [(''success'', JBool False),
                                (''error'', JStr e),
                                (''report'', JObj (failed_report env e s))],
                persisted = Some (failed_report env e s), trace = log\<rparr>))"

text \<open>\<^verbatim>\<open>ReportService.generate_report\<close>, lines 56-267.\<close>

definition generate_report :: "env \<Rightarrow> outcome" where
  "generate_report env = conclude env (generate_report_try env)"

section \<open>Source Gatherer (\<^verbatim>\<open>search_agent.py\<close>)\<close>

text \<open>A search result is a \<^verbatim>\<open>Dict[str, str]\<close>, as the signatures declare.\<close>

type_synonym search_item = "(string \<times> string) list"

text \<open>Lines 106-111: the queries used when the model's answer is not a list.\<close>

definition fallback_queries :: "(json \<Rightarrow> string) \<Rightarrow> dict \<Rightarrow> json list" where
  "fallback_queries str profile =
     [JStr (''logistics regulations '' @ str (dict_get profile ''company_name'' JNull) @ '' 2024''),
      JStr ''EU transport law changes 2024'',
      JStr ''cross-border cargo requirements Europe'']"

text \<open>
  \<^verbatim>\<open>_generate_search_queries\<close>, lines 89-113. The call of the model is outside the
  \<^verbatim>\<open>try\<close>; a parsed list is returned cut to ten entries, whatever its length.
\<close>

definition SearchAgent_generate_search_queries ::
    "(string \<Rightarrow> json option) \<Rightarrow> (json \<Rightarrow> string) \<Rightarrow> dict \<Rightarrow> llm_reply \<Rightarrow> exn + json list" where
  "SearchAgent_generate_search_queries loads str profile reply =
     (case reply of
        Raises e \<Rightarrow> Inl e
      | Reply text \<Rightarrow>
          (case loads (strip text) of
             Some (JArr queries) \<Rightarrow> Inr (take 10 queries)
           | other \<Rightarrow> Inr (fallback_queries str profile)))"

text \<open>
  Lines 117-128: every query is sent to \<^verbatim>\<open>mcp_client.search_web\<close>, here \<open>web\<close>; a query
  that raises is skipped.
\<close>

fun all_results :: "(json \<Rightarrow> exn + search_item list) \<Rightarrow> json list \<Rightarrow> search_item list" where
  "all_results web [] = []"
| "all_results web (query # queries) =
     (case web query of
        Inl e \<Rightarrow> all_results web queries
      | Inr results \<Rightarrow> results @ all_results web queries)"

text \<open>Lines 131-136; \<^verbatim>\<open>result["url"]\<close> raises KeyError on a result without URL.\<close>

fun unique_results :: "string set \<Rightarrow> search_item list \<Rightarrow> exn + search_item list" where
  "unique_results seen_urls [] = Inr []"
| "unique_results seen_urls (result # results) =
     (case map_of result ''url'' of
        None \<Rightarrow> Inl ''KeyError: url''
      | Some url \<Rightarrow>
          if url \<in> seen_urls then unique_results seen_urls results
          else (case unique_results (insert url seen_urls) results of
                  Inl e \<Rightarrow> Inl e
                | Inr rest \<Rightarrow> Inr (result # rest)))"

text \<open>\<^verbatim>\<open>_execute_searches\<close>, lines 115-138.\<close>

definition SearchAgent_execute_searches ::
    "(json \<Rightarrow> exn + search_item list) \<Rightarrow> json list \<Rightarrow> exn + search_item list" where
  "SearchAgent_execute_searches web queries = unique_results {} (all_results web queries)"

text \<open>Line 173, \<^verbatim>\<open>{r["url"]: r for r in search_results}\<close>.\<close>

fun url_to_result ::
    "search_item list \<Rightarrow> (string \<times> search_item) list \<Rightarrow> exn + (string \<times> search_item) list" where
  "url_to_result [] d = Inr d"
| "url_to_result (r # rs) d =
     (case map_of r ''url'' of
        None \<Rightarrow> Inl ''KeyError: url''
      | Some url \<Rightarrow> url_to_result rs (AList.update url r d))"

text \<open>
  \<^verbatim>\<open>for url in ranked_urls\<close>: a list gives its elements, a dictionary its keys, a string
  its characters; nothing else can be iterated.
\<close>

fun py_iter :: "json \<Rightarrow> exn + json list" where
  "py_iter (JArr xs) = Inr xs"
| "py_iter (JObj kvs) = Inr (map (\<lambda>kv. JStr (fst kv)) kvs)"
| "py_iter (JStr s) = Inr (map (\<lambda>c. JStr [c]) s)"
| "py_iter j = Inl ''TypeError: object is not iterable''"

text \<open>
  Lines 174-177. \<^verbatim>\<open>url in url_to_result\<close> hashes \<open>url\<close>: a list or a dictionary raises,
  and a value that is not a string equals no key.
\<close>

fun select_ranked :: "(string \<times> search_item) list \<Rightarrow> json list \<Rightarrow> exn + search_item list" where
  "select_ranked d [] = Inr []"
| "select_ranked d (JStr url # urls) =
     (case select_ranked d urls of
        Inl e \<Rightarrow> Inl e
      | Inr rest \<Rightarrow> (case map_of d url of Some r \<Rightarrow> Inr (r # rest) | None \<Rightarrow> Inr rest))"
| "select_ranked d (JArr xs # urls) = Inl ''TypeError: unhashable type''"
| "select_ranked d (JObj kvs # urls) = Inl ''TypeError: unhashable type''"
| "select_ranked d (other # urls) = select_ranked d urls"

text \<open>The body of the \<^verbatim>\<open>try\<close> of \<^verbatim>\<open>_filter_results\<close>, lines 163-179.\<close>

definition rank_results ::
    "(string \<Rightarrow> json option) \<Rightarrow> llm_reply \<Rightarrow> search_item list \<Rightarrow> exn + search_item list" where
  "rank_results loads reply search_results =
     (case reply of
        Raises e \<Rightarrow> Inl e
      | Reply text \<Rightarrow>
          (case loads (strip text) of
             None \<Rightarrow> Inl ''JSONDecodeError''
           | Some ranked_urls \<Rightarrow>
               (case url_to_result search_results [] of
                  Inl e \<Rightarrow> Inl e
                | Inr d \<Rightarrow>
                    (case py_iter ranked_urls of
                       Inl e \<Rightarrow> Inl e
                     | Inr urls \<Rightarrow>
                         (case select_ranked d urls of
                            Inl e \<Rightarrow> Inl e
                          | Inr filtered \<Rightarrow> Inr (take 15 filtered))))))"

text \<open>\<^verbatim>\<open>_filter_results\<close>, lines 147-183.\<close>

definition SearchAgent_filter_results ::
    "(string \<Rightarrow> json option) \<Rightarrow> llm_reply \<Rightarrow> search_item list \<Rightarrow> search_item list" where
  "SearchAgent_filter_results loads reply search_results =
     (if length search_results \<le> 15 then search_results
      else (case rank_results loads reply search_results of
              Inr filtered \<Rightarrow> filtered
            | Inl e \<Rightarrow> take 15 search_results))"

definition item_json :: "search_item \<Rightarrow> json" where
  "item_json r = JObj (map (\<lambda>kv. (fst kv, JStr (snd kv))) r)"

text \<open>
  \<^verbatim>\<open>SearchAgent.execute\<close>, lines 32-63. \<open>query_reply\<close> is the model's reply when asked for
  queries, \<open>ranking_reply\<close> its reply when asked to rank.
\<close>

definition SearchAgent_execute ::
    "(string \<Rightarrow> json option) \<Rightarrow> (json \<Rightarrow> string) \<Rightarrow> dict \<Rightarrow> llm_reply
       \<Rightarrow> (json \<Rightarrow> exn + search_item list) \<Rightarrow> llm_reply \<Rightarrow> exn + dict" where
  "SearchAgent_execute loads str profile query_reply web ranking_reply =
     (case SearchAgent_generate_search_queries loads str profile query_reply of
        Inl e \<Rightarrow>
          Inr [(''success'', JBool False), (''error'', JStr e), (''search_results'', JArr [])]
      | Inr queries \<Rightarrow>
          (case SearchAgent_execute_searches web queries of
             Inl e \<Rightarrow>
               Inr [(''success'', JBool False), (''error'', JStr e), (''search_results'', JArr [])]
           | Inr search_results \<Rightarrow>
               Inr [(''success'', JBool True),
                    (''search_results'',
                       JArr (map item_json
                               (SearchAgent_filter_results loads ranking_reply search_results))),
                    (''queries_used'', JArr queries),
                    (''total_results'', JInt (int (length search_results)))]))"

section \<open>Notions used in the statements\<close>

text \<open>
  What the two agents produce at iteration \<open>n\<close> of a run in the environment \<open>env\<close>:
  whether \<^verbatim>\<open>_generate_report\<close> returns, the draft it returns (\<^verbatim>\<open>None\<close> when it raises, as
  \<^verbatim>\<open>execute\<close> reports it), the result of the validator and whether the controller reads
  it as an approval.
\<close>

definition generator_succeeds :: "env \<Rightarrow> int \<Rightarrow> bool" where
  "generator_succeeds env n =
     (case ReportGeneratorAgent_generate_report (json_loads env) (generator_reply env n) of
        Inr report \<Rightarrow> True | Inl e \<Rightarrow> False)"

definition draft :: "env \<Rightarrow> int \<Rightarrow> json" where
  "draft env n =
     (case ReportGeneratorAgent_generate_report (json_loads env) (generator_reply env n) of
        Inr report \<Rightarrow> report | Inl e \<Rightarrow> JNull)"

definition verdict :: "env \<Rightarrow> int \<Rightarrow> dict" where
  "verdict env n =
     (case ValidatorAgent_execute (json_loads env) (validator_reply env n) of
        Inr result \<Rightarrow> result | Inl e \<Rightarrow> [])"

definition approved :: "env \<Rightarrow> int \<Rightarrow> bool" where
  "approved env n = truthy (dict_get (verdict env n) ''is_approved'' (JBool False))"

text \<open>The feedback the generator is given at iteration \<open>n\<close>: none at first, then the last one.\<close>

definition feedback_before :: "env \<Rightarrow> int \<Rightarrow> json" where
  "feedback_before env n =
     (if n \<le> 1 then JNull else dict_get (verdict env (n - 1)) ''feedback'' (JStr []))"

text \<open>One generate/validate round, and the entry it adds to the history.\<close>

definition round_calls :: "env \<Rightarrow> int \<Rightarrow> call list" where
  "round_calls env n = [Generate n (feedback_before env n), Validate n (draft env n)]"

definition history_entry :: "env \<Rightarrow> int \<Rightarrow> json" where
  "history_entry env n = validation_entry env n (verdict env n)"


text \<open>
  The minimum-schema invariant of a draft as the specification words it: the four
  sections are there and not null, and every risk level or priority is one of the four
  levels. The code has no such check; the predicate is only used to state properties.
\<close>

fun valid_level :: "json \<Rightarrow> bool" where
  "valid_level (JStr s) = (s \<in> set [''critical'', ''high'', ''medium'', ''low''])"
| "valid_level j = False"

definition section_present :: "dict \<Rightarrow> string \<Rightarrow> bool" where
  "section_present d k = (case map_of d k of None \<Rightarrow> False | Some JNull \<Rightarrow> False | Some v \<Rightarrow> True)"

definition levels_valid :: "string \<Rightarrow> json \<Rightarrow> bool" where
  "levels_valid key sec =
     (case sec of
        JArr items \<Rightarrow>
          list_all (\<lambda>item. case item of JObj i \<Rightarrow> valid_level (dict_get i key JNull) | other \<Rightarrow> False) items
      | other \<Rightarrow> False)"

definition minimum_schema :: "json \<Rightarrow> bool" where
  "minimum_schema report =
     (case report of
        JObj d \<Rightarrow>
          section_present d ''summary'' \<and> section_present d ''legal_changes''
          \<and> section_present d ''route_impacts'' \<and> section_present d ''recommended_actions''
          \<and> (case dict_get d ''summary'' JNull of
                JObj summary \<Rightarrow> valid_level (dict_get summary ''overall_risk'' JNull)
              | other \<Rightarrow> False)
          \<and> levels_valid ''risk_level'' (dict_get d ''legal_changes'' JNull)
          \<and> levels_valid ''risk_level'' (dict_get d ''route_impacts'' JNull)
          \<and> levels_valid ''priority'' (dict_get d ''recommended_actions'' JNull)
      | other \<Rightarrow> False)"


section \<open>Example inputs\<close>

text \<open>Texts a model may answer with.\<close>

definition judge_approves :: string where
  \<open>judge_approves = ''{"is_approved": true, "quality_score": 90}''\<close>

definition judge_rejects :: string where
  \<open>judge_rejects = ''{"is_approved": false, "feedback": "Add sources"}''\<close>

definition judge_says_success_false :: string where
  \<open>judge_says_success_false = ''{"is_approved": true, "success": false}''\<close>

definition draft_low_risk :: string where
  \<open>draft_low_risk = ''{"summary": {"overall_risk": "low"}}''\<close>

definition draft_null_summary :: string where
  \<open>draft_null_summary = ''{"summary": null}''\<close>

definition four_queries :: string where
  \<open>four_queries = ''["a", "b", "c", "d"]''\<close>

definition ranking_repeats :: string where
  \<open>ranking_repeats = ''["a1", "a1"]''\<close>

text \<open>
  \<^verbatim>\<open>json.loads\<close> on the texts above and on \<^verbatim>\<open>[]\<close>; the examples use no other text that is
  JSON, so everything else counts as a decoding error here.
\<close>

definition sample_loads :: "string \<Rightarrow> json option" where
  "sample_loads text =
     (if text = judge_approves
        then Some (JObj [(''is_approved'', JBool True), (''quality_score'', JInt 90)])
      else if text = judge_rejects
        then Some (JObj [(''is_approved'', JBool False), (''feedback'', JStr ''Add sources'')])
      else if text = judge_says_success_false
        then Some (JObj [(''is_approved'', JBool True), (''success'', JBool False)])
      else if text = draft_low_risk
        then Some (JObj [(''summary'', JObj [(''overall_risk'', JStr ''low'')])])
      else if text = draft_null_summary
        then Some (JObj [(''summary'', JNull)])
      else if text = four_queries
        then Some (JArr [JStr ''a'', JStr ''b'', JStr ''c'', JStr ''d''])
      else if text = ranking_repeats
        then Some (JArr [JStr ''a1'', JStr ''a1''])
      else if text = ''[]''
        then Some (JArr [])
      else None)"

text \<open>\<^verbatim>\<open>str\<close> on the values the examples print: a string is itself, \<^verbatim>\<open>None\<close> is "None".\<close>

fun sample_str :: "json \<Rightarrow> string" where
  "sample_str (JStr s) = s"
| "sample_str j = ''None''"

text \<open>A search that finds five results per query, with URLs made from the query.\<close>

fun sample_web :: "json \<Rightarrow> exn + search_item list" where
  "sample_web (JStr q) =
     Inr [[(''url'', q @ ''1'')], [(''url'', q @ ''2'')], [(''url'', q @ ''3'')],
          [(''url'', q @ ''4'')], [(''url'', q @ ''5'')]]"
| "sample_web j = Inl ''TypeError''"

text \<open>
  An environment with three iterations allowed, the standard search agent chosen, a
  generator that answers with a draft, a judge that rejects twice and then approves, and
  no failing write.
\<close>

definition sample_env :: env where
  "sample_env =
     \<lparr>report_id = ''r1'',
      company_profile = [(''company_name'', JStr ''Acme'')],
      max_iterations = 3,
      json_loads = sample_loads,
      py_str = sample_str,
      use_mcp = False,
      mcp_search_agent_created = None,
      validator_agent_created = None,
      search_executed =
        Inr [(''success'', JBool True), (''search_results'', JArr []), (''queries_used'', JArr [])],
      search_results_added = None,
      generator_reply = (\<lambda>n. Reply draft_low_risk),
      validator_reply = (\<lambda>n. if n = 3 then Reply judge_approves else Reply judge_rejects),
      validated_at = (\<lambda>n. ''t''),
      generated_at = ''t'',
      failed_at = ''t'',
      report_saved = None,
      report_added = None,
      pdf_path = ''r1.pdf'',
      pdf_generated = None,
      failed_report_saved = None\<rparr>"

text \<open>The sample environment with a judge that never approves.\<close>

definition always_rejecting :: env where
  "always_rejecting = sample_env\<lparr>validator_reply := (\<lambda>n. Reply judge_rejects)\<rparr>"

text \<open>Whether a parsed value is a dictionary.\<close>

fun is_dict :: "json \<Rightarrow> bool" where
  "is_dict (JObj d) = True"
| "is_dict j = False"

text \<open>The sample environment with a judge whose call raises at every iteration.\<close>

definition judge_down :: env where
  "judge_down = sample_env\<lparr>validator_reply := (\<lambda>n. Raises ''timeout'')\<rparr>"

text \<open>
  The sample environment with a generator whose model call raises at every iteration.
\<close>

definition generator_down :: env where
  "generator_down = sample_env\<lparr>generator_reply := (\<lambda>n. Raises ''timeout'')\<rparr>"

text \<open>
  Whether a run returned with \<open>success\<close>, and a field of the report it returned
  (\<^verbatim>\<open>None\<close> when there is none).
\<close>

definition run_succeeded :: "outcome \<Rightarrow> bool" where
  "run_succeeded out =
     (case returned out of
        Inr result \<Rightarrow> truthy (dict_get result ''success'' JNull)
      | Inl e \<Rightarrow> False)"

definition report_field :: "outcome \<Rightarrow> string \<Rightarrow> json" where
  "report_field out k =
     (case returned out of
        Inr result \<Rightarrow>
          (case dict_get result ''report'' JNull of
             JObj report \<Rightarrow> dict_get report k JNull
           | other \<Rightarrow> JNull)
      | Inl e \<Rightarrow> JNull)"









text \<open>Whether a parsed value is a list.\<close>

fun is_list :: "json \<Rightarrow> bool" where
  "is_list (JArr xs) = True"
| "is_list j = False"

section \<open>The validation loop\<close>

lemma ValidatorAgent_execute_returns:
  "\<exists>result. ValidatorAgent_execute loads reply = Inr result"
  by (simp add: ValidatorAgent_execute_def split: sum.split)

lemma ValidatorAgent_execute_verdict:
  "ValidatorAgent_execute (json_loads env) (validator_reply env n) = Inr (verdict env n)"
  using ValidatorAgent_execute_returns [of "json_loads env" "validator_reply env n"]
  by (auto simp: verdict_def)

lemma ReportGeneratorAgent_execute_succeeds:
  "generator_succeeds env n \<Longrightarrow>
   ReportGeneratorAgent_execute (json_loads env) (generator_reply env n)
     = Inr [(''success'', JBool True), (''report'', draft env n)]"
  by (simp add: generator_succeeds_def draft_def ReportGeneratorAgent_execute_def split: sum.splits)

lemma iteration_validated:
  assumes "generator_succeeds env (iteration_count s + 1)"
  shows "iteration env s =
     (if approved env (iteration_count s + 1) then Break
      else if iteration_count s + 1 \<ge> max_iterations env then Break else Continue,
      s\<lparr>iteration_count := iteration_count s + 1,
        calls := calls s @ [Generate (iteration_count s + 1) (previous_feedback s),
                            Validate (iteration_count s + 1) (draft env (iteration_count s + 1))],
        report_content := draft env (iteration_count s + 1),
        validation_history := validation_history s @ [history_entry env (iteration_count s + 1)],
        previous_feedback :=
          (if approved env (iteration_count s + 1) then previous_feedback s
           else dict_get (verdict env (iteration_count s + 1)) ''feedback'' (JStr []))\<rparr>)"
  using assms
  by (simp add: iteration_def Let_def ReportGeneratorAgent_execute_succeeds
      ValidatorAgent_execute_verdict dict_index_def approved_def history_entry_def)

lemma validation_loop_rejections:
  assumes "iteration_count s = k" and "0 \<le> k" and "k \<le> m" and "m < max_iterations env"
    and "previous_feedback s = feedback_before env (k + 1)"
    and "\<forall>i. k < i \<and> i \<le> m \<longrightarrow> generator_succeeds env i \<and> \<not> approved env i"
  shows "\<exists>s'. validation_loop env s = validation_loop env s'
           \<and> iteration_count s' = m
           \<and> validation_history s' = validation_history s @ map (history_entry env) [k + 1..m]
           \<and> calls s' = calls s @ concat (map (round_calls env) [k + 1..m])
           \<and> previous_feedback s' = feedback_before env (m + 1)"
  using assms(3,4,6)
proof (induction "nat (m - k)" arbitrary: m)
  case 0
  then have "m = k" by simp
  with assms(1,5) show ?case by auto
next
  case (Suc d)
  let ?p = "m - 1"
  from Suc.hyps(2) Suc.prems have p: "d = nat (?p - k)" "k \<le> ?p" "?p < max_iterations env"
    by simp_all
  from Suc.prems(3) have "\<forall>i. k < i \<and> i \<le> ?p \<longrightarrow> generator_succeeds env i \<and> \<not> approved env i"
    by simp
  from Suc.hyps(1) [OF p this] obtain s1 where s1:
    "validation_loop env s = validation_loop env s1"
    "iteration_count s1 = ?p"
    "validation_history s1 = validation_history s @ map (history_entry env) [k + 1..?p]"
    "calls s1 = calls s @ concat (map (round_calls env) [k + 1..?p])"
    "previous_feedback s1 = feedback_before env (?p + 1)"
    by blast
  from Suc.hyps(2) have km: "k < m" by simp
  with Suc.prems(3) have gm: "generator_succeeds env m" and rm: "\<not> approved env m"
    by simp_all
  from gm s1(2) have g1: "generator_succeeds env (iteration_count s1 + 1)" by simp
  define s2 where "s2 = snd (iteration env s1)"
  from iteration_validated [OF g1] s1(2) rm Suc.prems(2)
  have it: "iteration env s1 = (Continue, s2)"
    by (simp add: s2_def)
  have upto: "[k + 1..m] = [k + 1..m - 1] @ [m]"
    using km by (simp add: upto_rec2)
  have f2: "iteration_count s2 = m"
    "validation_history s2 = validation_history s1 @ [history_entry env m]"
    "calls s2 = calls s1 @ [Generate m (previous_feedback s1), Validate m (draft env m)]"
    "previous_feedback s2 = dict_get (verdict env m) ''feedback'' (JStr [])"
    unfolding s2_def using iteration_validated [OF g1] s1(2) rm by simp_all
  have "validation_loop env s1 = validation_loop env s2"
    using it s1(2) Suc.prems(2) by (subst validation_loop.simps) simp
  moreover have "feedback_before env (m + 1) = dict_get (verdict env m) ''feedback'' (JStr [])"
    using km assms(2) by (simp add: feedback_before_def)
  ultimately show ?case
    using s1 f2 upto by (auto simp: round_calls_def)
qed

lemma initial_state_fields:
  "iteration_count initial_state = 0" "validation_history initial_state = []"
  "calls initial_state = []" "previous_feedback initial_state = JNull"
  "report_content initial_state = JNull"
  by (simp_all add: initial_state_def)

lemma validation_loop_accepts:
  assumes "1 \<le> N" and "N \<le> max_iterations env"
    and "\<forall>i. 1 \<le> i \<and> i \<le> N \<longrightarrow> generator_succeeds env i"
    and "\<forall>i. 1 \<le> i \<and> i < N \<longrightarrow> \<not> approved env i"
    and "approved env N \<or> N = max_iterations env"
  shows "\<exists>s. validation_loop env initial_state = (None, s)
           \<and> iteration_count s = N
           \<and> validation_history s = map (history_entry env) [1..N]
           \<and> calls s = concat (map (round_calls env) [1..N])
           \<and> report_content s = draft env N"
proof -
  have "\<forall>i. 0 < i \<and> i \<le> N - 1 \<longrightarrow> generator_succeeds env i \<and> \<not> approved env i"
    using assms(3,4) by simp
  with validation_loop_rejections [of initial_state 0 "N - 1" env] assms(1,2)
  obtain s1 where s1:
    "validation_loop env initial_state = validation_loop env s1"
    "iteration_count s1 = N - 1"
    "validation_history s1 = map (history_entry env) [1..N - 1]"
    "calls s1 = concat (map (round_calls env) [1..N - 1])"
    "previous_feedback s1 = feedback_before env N"
    by (auto simp: initial_state_fields feedback_before_def)
  from assms(1,3) s1(2) have g: "generator_succeeds env (iteration_count s1 + 1)" by simp
  define s2 where "s2 = snd (iteration env s1)"
  have it: "iteration env s1 = (Break, s2)"
    using iteration_validated [OF g] s1(2) assms(5) by (auto simp: s2_def)
  have upto: "[1..N] = [1..N - 1] @ [N]"
    using assms(1) by (simp add: upto_rec2)
  have f2: "iteration_count s2 = N"
    "validation_history s2 = validation_history s1 @ [history_entry env N]"
    "calls s2 = calls s1 @ [Generate N (previous_feedback s1), Validate N (draft env N)]"
    "report_content s2 = draft env N"
    unfolding s2_def using iteration_validated [OF g] s1(2) by simp_all
  have "validation_loop env s1 = (None, s2)"
    using it s1(2) assms(2) by (subst validation_loop.simps) simp
  then show ?thesis
    using s1 f2 upto by (auto simp: round_calls_def)
qed

lemma iteration_generator_fails:
  assumes "ReportGeneratorAgent_generate_report (json_loads env)
             (generator_reply env (iteration_count s + 1)) = Inl e"
  shows "iteration env s =
     (Raised (''Report generation failed: '' @ py_str env (JStr e)),
      s\<lparr>iteration_count := iteration_count s + 1,
        calls := calls s @ [Generate (iteration_count s + 1) (previous_feedback s)]\<rparr>)"
  using assms
  by (simp add: iteration_def Let_def ReportGeneratorAgent_execute_def dict_index_def dict_get_def)

lemma validation_loop_aborts:
  assumes "1 \<le> N" and "N \<le> max_iterations env"
    and "\<forall>i. 1 \<le> i \<and> i < N \<longrightarrow> generator_succeeds env i \<and> \<not> approved env i"
    and "ReportGeneratorAgent_generate_report (json_loads env) (generator_reply env N) = Inl e"
  shows "\<exists>s. validation_loop env initial_state
                = (Some (''Report generation failed: '' @ py_str env (JStr e)), s)
           \<and> iteration_count s = N
           \<and> validation_history s = map (history_entry env) [1..N - 1]
           \<and> calls s = concat (map (round_calls env) [1..N - 1])
                         @ [Generate N (feedback_before env N)]"
proof -
  have "\<forall>i. 0 < i \<and> i \<le> N - 1 \<longrightarrow> generator_succeeds env i \<and> \<not> approved env i"
    using assms(3) by simp
  with validation_loop_rejections [of initial_state 0 "N - 1" env] assms(1,2)
  obtain s1 where s1:
    "validation_loop env initial_state = validation_loop env s1"
    "iteration_count s1 = N - 1"
    "validation_history s1 = map (history_entry env) [1..N - 1]"
    "calls s1 = concat (map (round_calls env) [1..N - 1])"
    "previous_feedback s1 = feedback_before env N"
    by (auto simp: initial_state_fields feedback_before_def)
  from assms(4) s1(2)
  have g: "ReportGeneratorAgent_generate_report (json_loads env)
             (generator_reply env (iteration_count s1 + 1)) = Inl e" by simp
  define s2 where "s2 = snd (iteration env s1)"
  have it: "iteration env s1
              = (Raised (''Report generation failed: '' @ py_str env (JStr e)), s2)"
    using iteration_generator_fails [OF g] by (simp add: s2_def)
  have f2: "iteration_count s2 = N"
    "validation_history s2 = validation_history s1"
    "calls s2 = calls s1 @ [Generate N (previous_feedback s1)]"
    unfolding s2_def using iteration_generator_fails [OF g] s1(2) by simp_all
  have "validation_loop env s1
          = (Some (''Report generation failed: '' @ py_str env (JStr e)), s2)"
    using it s1(2) assms(2) by (subst validation_loop.simps) simp
  then show ?thesis
    using s1 f2 by auto
qed

lemmas agent_defs =
  ValidatorAgent_execute_def ValidatorAgent_execute_try_def ValidatorAgent_validate_report_def
  ReportGeneratorAgent_execute_def ReportGeneratorAgent_generate_report_def
  remove_markdown_code_block_def strip_def is_space_def startswith_def
  dict_setdefault_def dict_index_def dict_merge_def dict_get_def

lemmas sample_defs =
  sample_loads_def judge_approves_def judge_rejects_def judge_says_success_false_def
  draft_low_risk_def draft_null_summary_def four_queries_def ranking_repeats_def

lemma sample_generator_succeeds: "generator_succeeds sample_env i"
  by (simp add: generator_succeeds_def sample_env_def agent_defs sample_defs)

lemma sample_draft:
  "draft sample_env i = JObj [(''summary'', JObj [(''overall_risk'', JStr ''low'')])]"
  by (simp add: draft_def sample_env_def agent_defs sample_defs)

lemma sample_approved: "approved sample_env i = (i = 3)"
  by (simp add: approved_def verdict_def sample_env_def agent_defs sample_defs)


lemma iteration_bounds:
  assumes "iteration env s = (c, s')"
    and "int (length (validation_history s)) \<le> iteration_count s"
  shows "int (length (validation_history s')) \<le> iteration_count s'"
  using assms
  by (auto simp: iteration_def Let_def split: sum.splits if_splits)




lemma create_agents_raises:
  "create_agents env =
     Inl (if use_mcp env
          then (case mcp_search_agent_created env of
                  Some e \<Rightarrow> e
                | None \<Rightarrow> ''TypeError: ReportGeneratorAgent.__init__() got an unexpected keyword argument api_key'')
          else ''TypeError: SearchAgent.__init__() got an unexpected keyword argument api_key'')"
  by (simp add: create_agents_def SearchAgent_init_api_key_def ReportGeneratorAgent_init_api_key_def
      split: option.splits)

lemma gather_raises: "\<exists>e. gather env = Inl e"
  by (simp add: gather_def create_agents_raises)


lemma generate_report_try_raises:
  "\<exists>e. generate_report_try env = (Inl (e, initial_state), None, [])"
  using gather_raises [of env] by (auto simp: generate_report_try_def)

lemma sample_run:
  "generate_report_try sample_env
     = (Inl (''TypeError: SearchAgent.__init__() got an unexpected keyword argument api_key'',
             initial_state), None, [])"
  by (simp add: generate_report_try_def gather_def create_agents_raises sample_env_def)

section \<open>The end of a run\<close>









section \<open>Evaluation of the examples\<close>

lemma ValidatorAgent_execute_raises:
  "ValidatorAgent_execute_try loads reply = Inl e \<Longrightarrow>
   ValidatorAgent_execute loads reply = Inr skipped_validation"
  by (simp add: ValidatorAgent_execute_def)

lemma ValidatorAgent_execute_unparsed:
  assumes "remove_markdown_code_block (strip text) = Inr content" and "loads content = None"
  shows "ValidatorAgent_execute loads (Reply text)
           = Inr ((''success'', JBool True) # unparsed_validation)"
  using assms
  by (simp add: ValidatorAgent_execute_def ValidatorAgent_execute_try_def
      ValidatorAgent_validate_report_def unparsed_validation_def dict_index_def dict_merge_def)

lemma ValidatorAgent_execute_not_dict:
  assumes "remove_markdown_code_block (strip text) = Inr content"
    and "loads content = Some j" and "\<not> is_dict j"
  shows "ValidatorAgent_execute loads (Reply text) = Inr skipped_validation"
  using assms
  by (cases j)
     (simp_all add: ValidatorAgent_execute_def ValidatorAgent_execute_try_def
        ValidatorAgent_validate_report_def)

lemma split_fence_nonempty: "split_fence cur s \<noteq> []"
  by (induction cur s rule: split_fence.induct) auto

lemma remove_markdown_code_block_returns:
  "\<exists>content'. remove_markdown_code_block content = Inr content'"
proof (cases "startswith content [CHR 0x60, CHR 0x60, CHR 0x60]")
  case False
  then show ?thesis by (simp add: remove_markdown_code_block_def)
next
  case True
  then have "content = [CHR 0x60, CHR 0x60, CHR 0x60] @ drop 3 content"
    by (metis append_take_drop_id length_Cons list.size(3) numeral_3_eq_3 startswith_def)
  then obtain rest where c: "content = CHR 0x60 # CHR 0x60 # CHR 0x60 # rest"
    by auto
  obtain p ps where "split_fence [] rest = p # ps"
    using split_fence_nonempty [of "[]" rest] by (cases "split_fence [] rest") auto
  with c True show ?thesis
    by (simp add: remove_markdown_code_block_def)
qed

lemma ReportGeneratorAgent_generate_report_unparsed:
  assumes "remove_markdown_code_block (strip text) = Inr content" and "loads content = None"
  shows "ReportGeneratorAgent_generate_report loads (Reply text) = Inr minimal_report"
  using assms by (simp add: ReportGeneratorAgent_generate_report_def)


lemma always_rejecting_facts:
  "max_iterations always_rejecting = 3"
  "generator_succeeds always_rejecting i"
  "\<not> approved always_rejecting i"
  by (simp_all add: always_rejecting_def sample_env_def generator_succeeds_def approved_def
      verdict_def agent_defs sample_defs)

lemma construction_fails:
  "generate_report_try always_rejecting
     = (Inl (''TypeError: SearchAgent.__init__() got an unexpected keyword argument api_key'',
             initial_state), None, [])"
  "generate_report_try judge_down
     = (Inl (''TypeError: SearchAgent.__init__() got an unexpected keyword argument api_key'',
             initial_state), None, [])"
  by (simp_all add: generate_report_try_def gather_def create_agents_raises
      always_rejecting_def judge_down_def sample_env_def)





lemma judge_down_facts:
  "max_iterations judge_down = 3"
  "generator_succeeds judge_down i"
  "verdict judge_down i = skipped_validation"
  "draft judge_down i = JObj [(''summary'', JObj [(''overall_risk'', JStr ''low'')])]"
  by (simp_all add: judge_down_def sample_env_def generator_succeeds_def
      verdict_def draft_def agent_defs sample_defs)

lemma generator_down_facts:
  "max_iterations generator_down = 3"
  "iteration_count initial_state = 0"
  "previous_feedback initial_state = JNull"
  "calls initial_state = []"
  "ReportGeneratorAgent_generate_report (json_loads generator_down)
     (generator_reply generator_down n) = Inl ''timeout''"
  "py_str generator_down (JStr ''timeout'') = ''timeout''"
  by (simp_all add: generator_down_def sample_env_def initial_state_def
      ReportGeneratorAgent_generate_report_def)

lemma validation_loop_first_approval:
  assumes "1 \<le> max_iterations env" and "generator_succeeds env 1" and "approved env 1"
  shows "validation_loop env initial_state
           = (None,
              \<lparr>iteration_count = 1,
               validation_history = [history_entry env 1],
               report_content = draft env 1,
               previous_feedback = JNull,
               calls = [Generate 1 JNull, Validate 1 (draft env 1)]\<rparr>)"
proof -
  have g: "generator_succeeds env (iteration_count initial_state + 1)"
    using assms(2) by (simp add: initial_state_def)
  have "iteration env initial_state
          = (Break,
             \<lparr>iteration_count = 1,
              validation_history = [history_entry env 1],
              report_content = draft env 1,
              previous_feedback = JNull,
              calls = [Generate 1 JNull, Validate 1 (draft env 1)]\<rparr>)"
    using iteration_validated [OF g] assms(3) by (simp add: initial_state_def)
  then show ?thesis
    using assms(1) by (subst validation_loop.simps) (simp add: initial_state_def)
qed

section \<open>The gatherer\<close>

lemmas search_defs =
  SearchAgent_execute_def SearchAgent_generate_search_queries_def SearchAgent_execute_searches_def
  SearchAgent_filter_results_def rank_results_def item_json_def fallback_queries_def

lemma unique_results_distinct:
  "unique_results seen_urls results = Inr out \<Longrightarrow>
   distinct (map (\<lambda>r. map_of r ''url'') out)
     \<and> (\<forall>r \<in> set out. \<exists>url. map_of r ''url'' = Some url \<and> url \<notin> seen_urls)"
proof (induction results arbitrary: seen_urls out)
  case Nil
  then show ?case by simp
next
  case (Cons r rs)
  from Cons.prems obtain url where u: "map_of r ''url'' = Some url"
    by (cases "map_of r ''url''") simp_all
  show ?case
  proof (cases "url \<in> seen_urls")
    case True
    with Cons.prems u have "unique_results seen_urls rs = Inr out" by simp
    from Cons.IH [OF this] show ?thesis .
  next
    case False
    with Cons.prems u obtain rest where
      rest: "unique_results (insert url seen_urls) rs = Inr rest" and out: "out = r # rest"
      by (cases "unique_results (insert url seen_urls) rs") simp_all
    from Cons.IH [OF rest] have d: "distinct (map (\<lambda>r. map_of r ''url'') rest)"
      and n: "\<forall>r \<in> set rest. \<exists>url'. map_of r ''url'' = Some url' \<and> url' \<notin> insert url seen_urls"
      by simp_all
    from n have "Some url \<notin> (\<lambda>r. map_of r ''url'') ` set rest" by force
    with d n u False out show ?thesis by force
  qed
qed

lemma SearchAgent_execute_searches_distinct:
  "SearchAgent_execute_searches web queries = Inr out \<Longrightarrow>
   distinct (map (\<lambda>r. map_of r ''url'') out)"
  using unique_results_distinct [of "{}" "all_results web queries" out]
  by (simp add: SearchAgent_execute_searches_def)

lemma SearchAgent_filter_results_unranked:
  "length search_results \<le> 15 \<or> rank_results loads reply search_results = Inl e \<Longrightarrow>
   SearchAgent_filter_results loads reply search_results = take 15 search_results"
  by (auto simp: SearchAgent_filter_results_def)

section \<open>Approval within the budget\<close>

text \<open>
  Claim C1 says that a run whose judge approves for the first time at attempt \<open>N\<close>, within
  the budget, performs exactly \<open>N\<close> rounds and returns a report with \<open>iteration_count = N\<close>
  and status \<^verbatim>\<open>approved\<close>. The code does not do this: no run performs a round. Lines 68
  and 70 of \<^verbatim>\<open>report_service.py\<close> pass \<^verbatim>\<open>api_key\<close> to \<^verbatim>\<open>SearchAgent\<close> and to
  \<^verbatim>\<open>ReportGeneratorAgent\<close>, whose constructors take no such parameter, so a
  \<^verbatim>\<open>TypeError\<close> reaches the handler of lines 242-267 before the search. In the sample
  environment three iterations are allowed, the generator succeeds at every attempt and
  the judge rejects twice and approves at the third attempt; the run returns
  \<open>success = false\<close> with a report of status \<^verbatim>\<open>failed\<close>, \<open>iteration_count = 0\<close> and an
  empty history, that report is the record on disk, and no agent is called. The loop of
  lines 92-139 taken alone does what the claim says once it is entered
  (\<open>validation_loop_accepts\<close>).
\<close>

theorem no_round_is_performed:
  "max_iterations sample_env = 3
   \<and> generator_succeeds sample_env 1 \<and> generator_succeeds sample_env 2
   \<and> generator_succeeds sample_env 3
   \<and> \<not> approved sample_env 1 \<and> \<not> approved sample_env 2 \<and> approved sample_env 3
   \<and> generate_report sample_env
       = \<lparr>returned =
            Inr [(''success'', JBool False),
                 (''error'', JStr ''TypeError: SearchAgent.__init__() got an unexpected keyword argument api_key''),
                 (''report'',
                    JObj [(''id'', JStr ''r1''), (''company_name'', JStr ''Acme''),
                          (''status'', JStr ''failed''),
                          (''error'', JStr ''TypeError: SearchAgent.__init__() got an unexpected keyword argument api_key''),
                          (''generated_at'', JStr ''t''), (''iteration_count'', JInt 0),
                          (''validation_history'', JArr [])])],
          persisted =
            Some [(''id'', JStr ''r1''), (''company_name'', JStr ''Acme''),
                  (''status'', JStr ''failed''),
                  (''error'', JStr ''TypeError: SearchAgent.__init__() got an unexpected keyword argument api_key''),
                  (''generated_at'', JStr ''t''), (''iteration_count'', JInt 0),
                  (''validation_history'', JArr [])],
          trace = []\<rparr>"
proof -
  have "generate_report sample_env
       = \<lparr>returned =
            Inr [(''success'', JBool False),
                 (''error'', JStr ''TypeError: SearchAgent.__init__() got an unexpected keyword argument api_key''),
                 (''report'',
                    JObj [(''id'', JStr ''r1''), (''company_name'', JStr ''Acme''),
                          (''status'', JStr ''failed''),
                          (''error'', JStr ''TypeError: SearchAgent.__init__() got an unexpected keyword argument api_key''),
                          (''generated_at'', JStr ''t''), (''iteration_count'', JInt 0),
                          (''validation_history'', JArr [])])],
          persisted =
            Some [(''id'', JStr ''r1''), (''company_name'', JStr ''Acme''),
                  (''status'', JStr ''failed''),
                  (''error'', JStr ''TypeError: SearchAgent.__init__() got an unexpected keyword argument api_key''),
                  (''generated_at'', JStr ''t''), (''iteration_count'', JInt 0),
                  (''validation_history'', JArr [])],
          trace = []\<rparr>"
    by (simp add: generate_report_def conclude_def sample_run failed_report_def
        initial_state_def dict_get_def)
       (simp add: failed_report_def dict_get_def sample_env_def)
  moreover have "max_iterations sample_env = 3" by (simp add: sample_env_def)
  ultimately show ?thesis
    by (simp add: sample_generator_succeeds sample_approved)
qed

section \<open>Exhaustion of the budget\<close>

text \<open>
  Claim C2 says that a run whose judge rejects every attempt performs exactly
  \<open>max_iterations\<close> rounds and returns the last draft with status \<^verbatim>\<open>approved\<close> and a
  history of \<open>max_iterations\<close> rejections. The code does not do this, by the defect of
  lines 68 and 70 that claim C1 meets: the constructors called there raise \<^verbatim>\<open>TypeError\<close>.
  In the sample environment with a judge that never approves, three iterations are
  allowed and the generator succeeds at every attempt; the run returns \<open>success = false\<close>
  with a report of status \<^verbatim>\<open>failed\<close>, \<open>iteration_count = 0\<close> and an empty history, and no
  agent is called. The loop of lines 92-139 taken alone, with at least one iteration
  allowed, performs \<open>max_iterations\<close> rounds and keeps every rejection
  (\<open>validation_loop_accepts\<close> at \<open>N = max_iterations\<close>).
\<close>

theorem no_round_when_always_rejected:
  "max_iterations always_rejecting = 3
   \<and> generator_succeeds always_rejecting 1 \<and> \<not> approved always_rejecting 1
   \<and> generator_succeeds always_rejecting 2 \<and> \<not> approved always_rejecting 2
   \<and> generator_succeeds always_rejecting 3 \<and> \<not> approved always_rejecting 3
   \<and> generate_report always_rejecting
       = \<lparr>returned =
            Inr [(''success'', JBool False),
                 (''error'', JStr ''TypeError: SearchAgent.__init__() got an unexpected keyword argument api_key''),
                 (''report'',
                    JObj [(''id'', JStr ''r1''), (''company_name'', JStr ''Acme''),
                          (''status'', JStr ''failed''),
                          (''error'', JStr ''TypeError: SearchAgent.__init__() got an unexpected keyword argument api_key''),
                          (''generated_at'', JStr ''t''), (''iteration_count'', JInt 0),
                          (''validation_history'', JArr [])])],
          persisted =
            Some [(''id'', JStr ''r1''), (''company_name'', JStr ''Acme''),
                  (''status'', JStr ''failed''),
                  (''error'', JStr ''TypeError: SearchAgent.__init__() got an unexpected keyword argument api_key''),
                  (''generated_at'', JStr ''t''), (''iteration_count'', JInt 0),
                  (''validation_history'', JArr [])],
          trace = []\<rparr>"
proof -
  have "generate_report always_rejecting
       = \<lparr>returned =
            Inr [(''success'', JBool False),
                 (''error'', JStr ''TypeError: SearchAgent.__init__() got an unexpected keyword argument api_key''),
                 (''report'',
                    JObj [(''id'', JStr ''r1''), (''company_name'', JStr ''Acme''),
                          (''status'', JStr ''failed''),
                          (''error'', JStr ''TypeError: SearchAgent.__init__() got an unexpected keyword argument api_key''),
                          (''generated_at'', JStr ''t''), (''iteration_count'', JInt 0),
                          (''validation_history'', JArr [])])],
          persisted =
            Some [(''id'', JStr ''r1''), (''company_name'', JStr ''Acme''),
                  (''status'', JStr ''failed''),
                  (''error'', JStr ''TypeError: SearchAgent.__init__() got an unexpected keyword argument api_key''),
                  (''generated_at'', JStr ''t''), (''iteration_count'', JInt 0),
                  (''validation_history'', JArr [])],
          trace = []\<rparr>"
    by (simp add: generate_report_def conclude_def construction_fails failed_report_def
        initial_state_def dict_get_def)
       (simp add: failed_report_def dict_get_def always_rejecting_def sample_env_def)
  then show ?thesis
    by (simp add: always_rejecting_facts)
qed

section \<open>The validator fails open\<close>

text \<open>
  Claim C3, as stated, fails: a judge's text that is not JSON is answered by the parse
  fallback of \<^verbatim>\<open>_validate_report\<close>, which approves with \<open>quality_score = 80\<close>, not 0. And
  the run whose judge raises at iteration 1 does not terminate approved after one
  iteration: it ends with \<open>success = false\<close>, status \<^verbatim>\<open>failed\<close>, \<open>iteration_count = 0\<close> and
  no call of an agent, because the constructors of lines 68 and 70 raise.
\<close>

theorem ValidatorAgent_execute_unparsed_counterexample:
  "sample_loads ''not json'' = None
   \<and> ValidatorAgent_execute sample_loads (Reply ''not json'')
       = Inr [(''success'', JBool True), (''is_approved'', JBool True),
              (''quality_score'', JInt 80),
              (''feedback'', JStr ''Report meets quality standards''),
              (''issues'', JArr [])]
   \<and> validator_reply judge_down 1 = Raises ''timeout''
   \<and> \<not> run_succeeded (generate_report judge_down)
   \<and> report_field (generate_report judge_down) ''status'' = JStr ''failed''
   \<and> report_field (generate_report judge_down) ''iteration_count'' = JInt 0
   \<and> trace (generate_report judge_down) = []"
proof -
  have "validator_reply judge_down 1 = Raises ''timeout''"
    by (simp add: judge_down_def sample_env_def)
  moreover have "\<not> run_succeeded (generate_report judge_down)"
    "report_field (generate_report judge_down) ''status'' = JStr ''failed''"
    "report_field (generate_report judge_down) ''iteration_count'' = JInt 0"
    "trace (generate_report judge_down) = []"
    by (simp_all add: generate_report_def conclude_def construction_fails run_succeeded_def
        report_field_def failed_report_def initial_state_def dict_get_def)
       (simp_all add: run_succeeded_def report_field_def failed_report_def dict_get_def
        judge_down_def sample_env_def)
  ultimately show ?thesis
    by (simp add: agent_defs sample_defs unparsed_validation_def)
qed

text \<open>
  Claim C3, amended. \<^verbatim>\<open>ValidatorAgent.execute\<close> returns the approving result with
  \<open>quality_score = 0\<close> and the feedback "Validation skipped due to error" whenever the body
  of its \<^verbatim>\<open>try\<close> raises, in particular when the judge call raises or the judge's answer
  parses to something that is not a dictionary; when the answer is not JSON at all it
  returns an approval with \<open>quality_score = 80\<close> and the feedback "Report meets quality
  standards". When at least one iteration is allowed, the generator succeeds at attempt 1
  and the validator returns one of these two results at attempt 1, the loop of lines
  92-139, entered with the initial variables, ends without an exception after exactly one
  round: \<open>iteration_count = 1\<close>, the draft of attempt 1 as content, the entry of that
  verdict as the whole history, one generation and one validation. Nothing is claimed of
  the run as a whole, which ends before the loop.
\<close>

theorem validator_fails_open:
  "ValidatorAgent_execute loads (Raises e) = Inr skipped_validation
   \<and> (ValidatorAgent_execute_try loads reply = Inl e' \<longrightarrow>
        ValidatorAgent_execute loads reply = Inr skipped_validation)
   \<and> (remove_markdown_code_block (strip text) = Inr content \<and> loads content = Some j
        \<and> \<not> is_dict j \<longrightarrow>
        ValidatorAgent_execute loads (Reply text) = Inr skipped_validation)
   \<and> (remove_markdown_code_block (strip text') = Inr content' \<and> loads content' = None \<longrightarrow>
        ValidatorAgent_execute loads (Reply text')
          = Inr ((''success'', JBool True) # unparsed_validation))
   \<and> map_of skipped_validation ''is_approved'' = Some (JBool True)
   \<and> map_of skipped_validation ''quality_score'' = Some (JInt 0)
   \<and> map_of skipped_validation ''feedback'' = Some (JStr ''Validation skipped due to error'')
   \<and> map_of unparsed_validation ''is_approved'' = Some (JBool True)
   \<and> map_of unparsed_validation ''quality_score'' = Some (JInt 80)
   \<and> map_of unparsed_validation ''feedback'' = Some (JStr ''Report meets quality standards'')
   \<and> (1 \<le> max_iterations env \<and> generator_succeeds env 1
        \<and> (verdict env 1 = skipped_validation
            \<or> verdict env 1 = (''success'', JBool True) # unparsed_validation) \<longrightarrow>
        validation_loop env initial_state
          = (None,
             \<lparr>iteration_count = 1,
              validation_history = [validation_entry env 1 (verdict env 1)],
              report_content = draft env 1,
              previous_feedback = JNull,
              calls = [Generate 1 JNull, Validate 1 (draft env 1)]\<rparr>))"
proof -
  have a: "ValidatorAgent_execute loads (Raises e) = Inr skipped_validation"
    by (simp add: ValidatorAgent_execute_def ValidatorAgent_execute_try_def
        ValidatorAgent_validate_report_def)
  have vals: "map_of skipped_validation ''is_approved'' = Some (JBool True)"
    "map_of skipped_validation ''quality_score'' = Some (JInt 0)"
    "map_of skipped_validation ''feedback'' = Some (JStr ''Validation skipped due to error'')"
    "map_of unparsed_validation ''is_approved'' = Some (JBool True)"
    "map_of unparsed_validation ''quality_score'' = Some (JInt 80)"
    "map_of unparsed_validation ''feedback'' = Some (JStr ''Report meets quality standards'')"
    by (simp_all add: skipped_validation_def unparsed_validation_def)
  have b: "ValidatorAgent_execute_try loads reply = Inl e' \<longrightarrow>
        ValidatorAgent_execute loads reply = Inr skipped_validation"
    by (simp add: ValidatorAgent_execute_raises)
  have c: "remove_markdown_code_block (strip text) = Inr content \<and> loads content = Some j
        \<and> \<not> is_dict j \<longrightarrow>
        ValidatorAgent_execute loads (Reply text) = Inr skipped_validation"
    by (simp add: ValidatorAgent_execute_not_dict)
  have d: "remove_markdown_code_block (strip text') = Inr content' \<and> loads content' = None \<longrightarrow>
        ValidatorAgent_execute loads (Reply text')
          = Inr ((''success'', JBool True) # unparsed_validation)"
    by (simp add: ValidatorAgent_execute_unparsed)
  have f: "1 \<le> max_iterations env \<and> generator_succeeds env 1
        \<and> (verdict env 1 = skipped_validation
            \<or> verdict env 1 = (''success'', JBool True) # unparsed_validation) \<longrightarrow>
        validation_loop env initial_state
          = (None,
             \<lparr>iteration_count = 1,
              validation_history = [validation_entry env 1 (verdict env 1)],
              report_content = draft env 1,
              previous_feedback = JNull,
              calls = [Generate 1 JNull, Validate 1 (draft env 1)]\<rparr>)"
  proof (intro impI, elim conjE)
    assume h: "1 \<le> max_iterations env" "generator_succeeds env 1"
      "verdict env 1 = skipped_validation
         \<or> verdict env 1 = (''success'', JBool True) # unparsed_validation"
    from h(3) have "approved env 1"
      by (auto simp: approved_def dict_get_def skipped_validation_def unparsed_validation_def)
    from validation_loop_first_approval [OF h(1,2) this]
    show "validation_loop env initial_state
          = (None,
             \<lparr>iteration_count = 1,
              validation_history = [validation_entry env 1 (verdict env 1)],
              report_content = draft env 1,
              previous_feedback = JNull,
              calls = [Generate 1 JNull, Validate 1 (draft env 1)]\<rparr>)"
      by (simp add: history_entry_def)
  qed
  show ?thesis
    by (intro conjI; (rule a b c d f vals))
qed

theorem validator_fails_open_witness:
  "ValidatorAgent_execute_try sample_loads (Raises ''timeout'') = Inl ''timeout''
   \<and> ValidatorAgent_execute sample_loads (Raises ''timeout'') = Inr skipped_validation
   \<and> remove_markdown_code_block (strip ''[]'') = Inr ''[]''
   \<and> sample_loads ''[]'' = Some (JArr []) \<and> \<not> is_dict (JArr [])
   \<and> ValidatorAgent_execute sample_loads (Reply ''[]'') = Inr skipped_validation
   \<and> remove_markdown_code_block (strip ''not json'') = Inr ''not json''
   \<and> sample_loads ''not json'' = None
   \<and> ValidatorAgent_execute sample_loads (Reply ''not json'')
        = Inr ((''success'', JBool True) # unparsed_validation)
   \<and> 1 \<le> max_iterations judge_down \<and> generator_succeeds judge_down 1
   \<and> verdict judge_down 1 = skipped_validation
   \<and> validation_loop judge_down initial_state
       = (None,
          \<lparr>iteration_count = 1,
           validation_history = [validation_entry judge_down 1 skipped_validation],
           report_content = JObj [(''summary'', JObj [(''overall_risk'', JStr ''low'')])],
           previous_feedback = JNull,
           calls = [Generate 1 JNull,
                    Validate 1 (JObj [(''summary'', JObj [(''overall_risk'', JStr ''low'')])])]\<rparr>)"
proof -
  have h1: "ValidatorAgent_execute_try sample_loads (Raises ''timeout'') = Inl ''timeout''"
    by (simp add: ValidatorAgent_execute_try_def ValidatorAgent_validate_report_def)
  have h2: "remove_markdown_code_block (strip ''[]'') = Inr ''[]''"
    "sample_loads ''[]'' = Some (JArr [])" "\<not> is_dict (JArr [])"
    by (simp_all add: agent_defs sample_defs)
  have h3: "remove_markdown_code_block (strip ''not json'') = Inr ''not json''"
    "sample_loads ''not json'' = None"
    by (simp_all add: agent_defs sample_defs)
  have h4: "1 \<le> max_iterations judge_down" "generator_succeeds judge_down 1"
    "verdict judge_down 1 = skipped_validation"
    "draft judge_down 1 = JObj [(''summary'', JObj [(''overall_risk'', JStr ''low'')])]"
    by (simp_all add: judge_down_facts)
  show ?thesis
    using validator_fails_open [of sample_loads "''timeout''" "Raises ''timeout''" "''timeout''"
        "''[]''" "''[]''" "JArr []" "''not json''" "''not json''" judge_down]
      h1 h2 h3 h4
    by simp
qed

section \<open>The success flag of the validator\<close>

text \<open>
  Claim C10 says that the result of \<^verbatim>\<open>ValidatorAgent.execute\<close> always has
  \<open>success = true\<close>. The method never raises (\<open>ValidatorAgent_execute_returns\<close>), but
  on the normal path it returns \<^verbatim>\<open>{"success": True, **validation_result}\<close>, where the
  keys of the judge's answer are stored after \<^verbatim>\<open>"success"\<close>: a judge that answers with a
  \<^verbatim>\<open>"success"\<close> key of its own decides the flag. At the answer
  \<^verbatim>\<open>{"is_approved": true, "success": false}\<close> the result has \<open>success = false\<close>.
\<close>

theorem ValidatorAgent_execute_success_overridden:
  "ValidatorAgent_execute sample_loads (Reply judge_says_success_false)
     = Inr [(''success'', JBool False), (''is_approved'', JBool True),
            (''quality_score'', JInt 0), (''feedback'', JStr ''Validation incomplete''),
            (''issues'', JArr [])]"
  by (simp add: agent_defs sample_defs)

section \<open>Failures of the generator\<close>

text \<open>
  Claim C4, as stated, fails: when the model call of the generator raises,
  \<^verbatim>\<open>ReportGeneratorAgent.execute\<close> returns \<open>success = false\<close> with \<^verbatim>\<open>None\<close> for report, which
  is no draft of the minimum schema, and the loop, entered with three iterations allowed,
  is left by the exception "Report generation failed: timeout" after the first generation,
  before any validation.
\<close>

theorem generator_failure_aborts_counterexample:
  "ReportGeneratorAgent_execute (json_loads generator_down) (generator_reply generator_down 1)
     = Inr [(''success'', JBool False), (''error'', JStr ''timeout''), (''report'', JNull)]
   \<and> \<not> minimum_schema JNull
   \<and> max_iterations generator_down = 3
   \<and> validation_loop generator_down initial_state
       = (Some ''Report generation failed: timeout'',
          \<lparr>iteration_count = 1, validation_history = [], report_content = JNull,
           previous_feedback = JNull, calls = [Generate 1 JNull]\<rparr>)"
proof -
  have g: "ReportGeneratorAgent_generate_report (json_loads generator_down)
     (generator_reply generator_down (iteration_count initial_state + 1)) = Inl ''timeout''"
    by (rule generator_down_facts)
  have "iteration generator_down initial_state
          = (Raised ''Report generation failed: timeout'',
             \<lparr>iteration_count = 1, validation_history = [], report_content = JNull,
              previous_feedback = JNull, calls = [Generate 1 JNull]\<rparr>)"
    using iteration_generator_fails [OF g]
    by (simp add: generator_down_facts) (simp add: initial_state_def)
  then have "validation_loop generator_down initial_state
       = (Some ''Report generation failed: timeout'',
          \<lparr>iteration_count = 1, validation_history = [], report_content = JNull,
           previous_feedback = JNull, calls = [Generate 1 JNull]\<rparr>)"
    by (subst validation_loop.simps) (simp add: generator_down_facts)
  moreover have "\<not> minimum_schema JNull"
    by (simp add: minimum_schema_def)
  ultimately show ?thesis
    by (simp add: generator_down_facts ReportGeneratorAgent_execute_def)
qed

text \<open>
  Claim C4, amended. Only an answer that is not JSON is absorbed into the minimal
  report, with \<open>success = true\<close>. Every exception inside \<^verbatim>\<open>_generate_report\<close>, such as a
  failing model call, makes \<^verbatim>\<open>execute\<close> return \<open>success = false\<close>, the message and no
  report. When that happens in a pass through the body of the loop, lines 103-104 raise
  "Report generation failed: " followed by the message: the pass ends with the counter
  incremented, the generation logged, no validation and nothing added to the history,
  and the loop, when it executes that pass, is left by this exception.
\<close>

theorem generator_failure_handling:
  "(remove_markdown_code_block (strip answer) = Inr content \<and> loads content = None \<longrightarrow>
      ReportGeneratorAgent_execute loads (Reply answer)
        = Inr [(''success'', JBool True), (''report'', minimal_report)])
   \<and> ReportGeneratorAgent_execute loads (Raises e)
        = Inr [(''success'', JBool False), (''error'', JStr e), (''report'', JNull)]
   \<and> (ReportGeneratorAgent_generate_report loads reply = Inl e2 \<longrightarrow>
        ReportGeneratorAgent_execute loads reply
          = Inr [(''success'', JBool False), (''error'', JStr e2), (''report'', JNull)])
   \<and> (ReportGeneratorAgent_generate_report (json_loads env)
          (generator_reply env (iteration_count s + 1)) = Inl e3 \<longrightarrow>
        iteration env s
          = (Raised (''Report generation failed: '' @ py_str env (JStr e3)),
             s\<lparr>iteration_count := iteration_count s + 1,
               calls := calls s @ [Generate (iteration_count s + 1) (previous_feedback s)]\<rparr>)
        \<and> (iteration_count s < max_iterations env \<longrightarrow>
             validation_loop env s
               = (Some (''Report generation failed: '' @ py_str env (JStr e3)),
                  s\<lparr>iteration_count := iteration_count s + 1,
                    calls := calls s @ [Generate (iteration_count s + 1) (previous_feedback s)]\<rparr>)))"
proof -
  have a: "remove_markdown_code_block (strip answer) = Inr content \<and> loads content = None \<longrightarrow>
      ReportGeneratorAgent_execute loads (Reply answer)
        = Inr [(''success'', JBool True), (''report'', minimal_report)]"
    by (simp add: ReportGeneratorAgent_execute_def ReportGeneratorAgent_generate_report_unparsed)
  have b: "ReportGeneratorAgent_execute loads (Raises e)
        = Inr [(''success'', JBool False), (''error'', JStr e), (''report'', JNull)]"
    by (simp add: ReportGeneratorAgent_execute_def ReportGeneratorAgent_generate_report_def)
  have c: "ReportGeneratorAgent_generate_report loads reply = Inl e2 \<longrightarrow>
        ReportGeneratorAgent_execute loads reply
          = Inr [(''success'', JBool False), (''error'', JStr e2), (''report'', JNull)]"
    by (simp add: ReportGeneratorAgent_execute_def)
  have d: "ReportGeneratorAgent_generate_report (json_loads env)
          (generator_reply env (iteration_count s + 1)) = Inl e3 \<longrightarrow>
        iteration env s
          = (Raised (''Report generation failed: '' @ py_str env (JStr e3)),
             s\<lparr>iteration_count := iteration_count s + 1,
               calls := calls s @ [Generate (iteration_count s + 1) (previous_feedback s)]\<rparr>)
        \<and> (iteration_count s < max_iterations env \<longrightarrow>
             validation_loop env s
               = (Some (''Report generation failed: '' @ py_str env (JStr e3)),
                  s\<lparr>iteration_count := iteration_count s + 1,
                    calls := calls s @ [Generate (iteration_count s + 1) (previous_feedback s)]\<rparr>))"
  proof (intro impI conjI)
    assume g: "ReportGeneratorAgent_generate_report (json_loads env)
          (generator_reply env (iteration_count s + 1)) = Inl e3"
    show it: "iteration env s
          = (Raised (''Report generation failed: '' @ py_str env (JStr e3)),
             s\<lparr>iteration_count := iteration_count s + 1,
               calls := calls s @ [Generate (iteration_count s + 1) (previous_feedback s)]\<rparr>)"
      by (rule iteration_generator_fails [OF g])
    assume "iteration_count s < max_iterations env"
    then show "validation_loop env s
               = (Some (''Report generation failed: '' @ py_str env (JStr e3)),
                  s\<lparr>iteration_count := iteration_count s + 1,
                    calls := calls s @ [Generate (iteration_count s + 1) (previous_feedback s)]\<rparr>)"
      using it by (subst validation_loop.simps) simp
  qed
  show ?thesis
    by (intro conjI; (rule a b c d))
qed

theorem generator_failure_handling_witness:
  "remove_markdown_code_block (strip ''not json'') = Inr ''not json''
   \<and> sample_loads ''not json'' = None
   \<and> ReportGeneratorAgent_execute sample_loads (Reply ''not json'')
        = Inr [(''success'', JBool True), (''report'', minimal_report)]
   \<and> ReportGeneratorAgent_generate_report sample_loads (Raises ''timeout'') = Inl ''timeout''
   \<and> ReportGeneratorAgent_execute sample_loads (Raises ''timeout'')
        = Inr [(''success'', JBool False), (''error'', JStr ''timeout''), (''report'', JNull)]
   \<and> ReportGeneratorAgent_generate_report (json_loads generator_down)
        (generator_reply generator_down (iteration_count initial_state + 1)) = Inl ''timeout''
   \<and> iteration_count initial_state < max_iterations generator_down
   \<and> validation_loop generator_down initial_state
       = (Some ''Report generation failed: timeout'',
          initial_state\<lparr>iteration_count := 1, calls := [Generate 1 JNull]\<rparr>)"
proof -
  have h1: "remove_markdown_code_block (strip ''not json'') = Inr ''not json''"
    "sample_loads ''not json'' = None"
    by (simp_all add: agent_defs sample_defs)
  have h2: "ReportGeneratorAgent_generate_report sample_loads (Raises ''timeout'') = Inl ''timeout''"
    by (simp add: ReportGeneratorAgent_generate_report_def)
  have h3: "ReportGeneratorAgent_generate_report (json_loads generator_down)
        (generator_reply generator_down (iteration_count initial_state + 1)) = Inl ''timeout''"
    "iteration_count initial_state < max_iterations generator_down"
    by (simp_all add: generator_down_facts)
  show ?thesis
    using generator_failure_handling [where answer = "''not json''" and content = "''not json''"
        and loads = sample_loads and e = "''timeout''" and reply = "Raises ''timeout''"
        and ?e2.0 = "''timeout''" and s = initial_state and env = generator_down
        and ?e3.0 = "''timeout''"]
      h1 h2 h3
    by (simp add: generator_down_facts)
qed

section \<open>Bounds on the iteration count and the history\<close>




section \<open>The draft after a malformed answer\<close>




section \<open>Failures after the loop\<close>




section \<open>Duplicate URLs in the gathered evidence\<close>

text \<open>
  Claim C5 says that the evidence list returned by the gatherer never holds two items with
  the same URL, also when more than 15 results are merged and the model ranks them. The
  merge step does remove duplicates (\<open>SearchAgent_execute_searches_distinct\<close>), and a list
  of at most 15 results, or one whose ranking fails, is passed on cut to 15
  (\<open>SearchAgent_filter_results_unranked\<close>). The ranked path, however, appends one item for
  every entry of the model's ranking: with four queries of five results each and the
  ranking \<^verbatim>\<open>["a1", "a1"]\<close>, the returned list holds the item with URL \<^verbatim>\<open>a1\<close> twice.
\<close>

theorem reranking_repeats_url:
  "SearchAgent_execute sample_loads sample_str [] (Reply four_queries) sample_web
       (Reply ranking_repeats)
     = Inr [(''success'', JBool True),
            (''search_results'',
               JArr [JObj [(''url'', JStr ''a1'')], JObj [(''url'', JStr ''a1'')]]),
            (''queries_used'', JArr [JStr ''a'', JStr ''b'', JStr ''c'', JStr ''d'']),
            (''total_results'', JInt 20)]"
  by (simp add: search_defs strip_def is_space_def sample_defs)

section \<open>Fallback queries\<close>

text \<open>
  Claim C8, as stated, fails: an empty list answered by the model is returned as the list
  of queries, so no query is issued; and when the call of the model raises, the exception
  leaves \<^verbatim>\<open>_generate_search_queries\<close> and \<^verbatim>\<open>execute\<close> reports a failed search with no
  queries at all.
\<close>

theorem query_fallback_counterexample:
  "SearchAgent_generate_search_queries sample_loads sample_str [] (Reply ''[]'') = Inr []
   \<and> SearchAgent_execute sample_loads sample_str [] (Reply ''[]'') sample_web (Reply ''[]'')
       = Inr [(''success'', JBool True), (''search_results'', JArr []),
              (''queries_used'', JArr []), (''total_results'', JInt 0)]
   \<and> SearchAgent_generate_search_queries sample_loads sample_str [] (Raises ''timeout'')
       = Inl ''timeout''
   \<and> SearchAgent_execute sample_loads sample_str [] (Raises ''timeout'') sample_web (Reply ''[]'')
       = Inr [(''success'', JBool False), (''error'', JStr ''timeout''),
              (''search_results'', JArr [])]"
  by (simp add: search_defs strip_def is_space_def sample_defs)

text \<open>
  Claim C8, amended. When the model's answer is not JSON, or is JSON but not a list, the
  gatherer falls back to its three fixed queries, so the queries issued are not empty.
  When the call of the model raises, no query is issued: \<^verbatim>\<open>execute\<close> returns
  \<open>success = false\<close> with the message and an empty result list.
\<close>

theorem query_fallback:
  "(loads (strip answer) = None \<or> (loads (strip answer) = Some j \<and> \<not> is_list j) \<longrightarrow>
      SearchAgent_generate_search_queries loads str profile (Reply answer)
        = Inr (fallback_queries str profile))
   \<and> length (fallback_queries str profile) = 3
   \<and> SearchAgent_generate_search_queries loads str profile (Raises e) = Inl e
   \<and> SearchAgent_execute loads str profile (Raises e) web ranking_reply
        = Inr [(''success'', JBool False), (''error'', JStr e), (''search_results'', JArr [])]"
proof -
  have a: "loads (strip answer) = None \<or> (loads (strip answer) = Some j \<and> \<not> is_list j) \<longrightarrow>
      SearchAgent_generate_search_queries loads str profile (Reply answer)
        = Inr (fallback_queries str profile)"
    by (cases j) (auto simp: SearchAgent_generate_search_queries_def)
  have b: "length (fallback_queries str profile) = 3"
    by (simp add: fallback_queries_def)
  have c: "SearchAgent_generate_search_queries loads str profile (Raises e) = Inl e"
    by (simp add: SearchAgent_generate_search_queries_def)
  have d: "SearchAgent_execute loads str profile (Raises e) web ranking_reply
        = Inr [(''success'', JBool False), (''error'', JStr e), (''search_results'', JArr [])]"
    by (simp add: SearchAgent_execute_def c)
  show ?thesis
    by (intro conjI; (rule a b c d))
qed

theorem query_fallback_witness:
  "sample_loads (strip ''not json'') = None
   \<and> SearchAgent_generate_search_queries sample_loads sample_str [] (Reply ''not json'')
        = Inr [JStr ''logistics regulations None 2024'', JStr ''EU transport law changes 2024'',
               JStr ''cross-border cargo requirements Europe'']
   \<and> sample_loads (strip judge_approves)
        = Some (JObj [(''is_approved'', JBool True), (''quality_score'', JInt 90)])
   \<and> \<not> is_list (JObj [(''is_approved'', JBool True), (''quality_score'', JInt 90)])
   \<and> SearchAgent_generate_search_queries sample_loads sample_str [] (Reply judge_approves)
        = Inr [JStr ''logistics regulations None 2024'', JStr ''EU transport law changes 2024'',
               JStr ''cross-border cargo requirements Europe'']"
proof -
  have h1: "sample_loads (strip ''not json'') = None"
    by (simp add: strip_def is_space_def sample_defs)
  have h2: "sample_loads (strip judge_approves)
        = Some (JObj [(''is_approved'', JBool True), (''quality_score'', JInt 90)])"
    by (simp add: strip_def is_space_def sample_defs)
  have f: "fallback_queries sample_str []
        = [JStr ''logistics regulations None 2024'', JStr ''EU transport law changes 2024'',
               JStr ''cross-border cargo requirements Europe'']"
    by (simp add: fallback_queries_def dict_get_def)
  show ?thesis
    using query_fallback [where loads = sample_loads and answer = "''not json''" and j = JNull
        and str = sample_str and profile = "[]" and e = "''timeout''" and web = sample_web
        and ranking_reply = "Reply ''[]''"]
      query_fallback [where loads = sample_loads and answer = judge_approves
        and j = "JObj [(''is_approved'', JBool True), (''quality_score'', JInt 90)]"
        and str = sample_str and profile = "[]" and e = "''timeout''" and web = sample_web
        and ranking_reply = "Reply ''[]''"]
      h1 h2 f
    by simp
qed

end
